theory Spec2Isabelle
  imports Main
begin

section \<open>Few-shot prompt templates (langchain/prompts/few\_shot.py)\<close>

text \<open>
  A shallow embedding of \<^verbatim>\<open>few_shot.py\<close>. Python dictionaries with string keys
  (example records, keyword arguments) are maps from strings to values of an
  arbitrary type \<open>'v\<close>. Every \<^verbatim>\<open>raise\<close> of the module is a value of the
  type \<open>error\<close>; an exception raised by a collaborator that the module only
  calls (the example selector, the example prompt, a formatting engine, a
  sub-template) carries a payload of an arbitrary type \<open>'x\<close> and is propagated
  under the constructor \<open>External\<close>, so that the origin of a failure stays visible.
\<close>

subsection \<open>Data model\<close>

type_synonym 'v pydict = "string \<rightharpoonup> 'v"

datatype 'x error =
    ValueError string
  | KeyError string
  | External 'x

text \<open>
  What the module uses of a \<^verbatim>\<open>BaseExampleSelector\<close>, whose classes are outside
  the module: the function \<^verbatim>\<open>select_examples(input_variables)\<close> computes, and
  the truth value that an \<^verbatim>\<open>if\<close> statement reads off the object. That value is
  true unless the selector's class defines \<^verbatim>\<open>__bool__\<close> or \<^verbatim>\<open>__len__\<close> and
  these return false or zero.
\<close>

record ('v, 'x) BaseExampleSelector =
  select_examples :: "'v pydict \<Rightarrow> 'x + 'v pydict list"
  truth_value :: bool

text \<open>
  The fields of \<^verbatim>\<open>_FewShotPromptTemplateMixin\<close>; \<open>None\<close> is Python's
  \<^verbatim>\<open>None\<close>, the default of both.
\<close>

record ('v, 'x) FewShotPromptTemplateMixin =
  examples :: "'v pydict list option"
  example_selector :: "('v, 'x) BaseExampleSelector option"

text \<open>
  Truth values as the \<^verbatim>\<open>if\<close> statements of the module take them: an optional
  list is true when it is neither \<^verbatim>\<open>None\<close> nor empty; an optional selector
  is true when it is not \<^verbatim>\<open>None\<close> and the truth value of the object is true.
\<close>

fun truthy_list :: "'a list option \<Rightarrow> bool" where
  "truthy_list None = False"
| "truthy_list (Some xs) = (xs \<noteq> [])"

fun truthy_selector :: "('v, 'x) BaseExampleSelector option \<Rightarrow> bool" where
  "truthy_selector None = False"
| "truthy_selector (Some sel) = truth_value sel"

text \<open>Propagating what a collaborator returned or raised.\<close>

fun delegate :: "'x + 'a \<Rightarrow> 'x error + 'a" where
  "delegate (Inl x) = Inl (External x)"
| "delegate (Inr a) = Inr a"

subsection \<open>The shared mixin\<close>

text \<open>
  \<^verbatim>\<open>check_examples_and_selector(cls, values)\<close>, the \<^verbatim>\<open>pre=True\<close> root
  validator: it reads the two entries of \<^verbatim>\<open>values\<close> (absent counts as
  \<^verbatim>\<open>None\<close>) and returns \<^verbatim>\<open>values\<close> unchanged.
\<close>

definition check_examples_and_selector ::
  "'v pydict list option \<Rightarrow> ('v, 'x) BaseExampleSelector option \<Rightarrow>
   'x error + ('v pydict list option \<times> ('v, 'x) BaseExampleSelector option)" where
  "check_examples_and_selector exs sel =
     (if truthy_list exs \<and> truthy_selector sel then
        Inl (ValueError ''Only one of 'examples' and 'example_selector' should be provided'')
      else if exs = None \<and> sel = None then
        Inl (ValueError ''One of 'examples' and 'example_selector' should be provided'')
      else Inr (exs, sel))"

text \<open>\<^verbatim>\<open>_get_examples(self, **kwargs)\<close>.\<close>

definition get_examples ::
  "('v, 'x, 'z) FewShotPromptTemplateMixin_scheme \<Rightarrow> 'v pydict \<Rightarrow> 'x error + 'v pydict list" where
  "get_examples self kwargs =
     (case examples self of
        Some exs \<Rightarrow> Inr exs
      | None \<Rightarrow>
          (case example_selector self of
             Some sel \<Rightarrow> delegate (select_examples sel kwargs)
           | None \<Rightarrow>
               Inl (ValueError ''One of 'examples' and 'example_selector' should be provided'')))"

subsection \<open>Helpers for comprehensions and \<^verbatim>\<open>str.join\<close>\<close>

text \<open>
  A list comprehension whose element expression may raise: the elements are
  computed from left to right and the first exception ends the comprehension.
\<close>

fun comprehension :: "('a \<Rightarrow> 'e + 'b) \<Rightarrow> 'a list \<Rightarrow> 'e + 'b list" where
  "comprehension f [] = Inr []"
| "comprehension f (x # xs) =
     (case f x of
        Inl e \<Rightarrow> Inl e
      | Inr y \<Rightarrow> (case comprehension f xs of Inl e \<Rightarrow> Inl e | Inr ys \<Rightarrow> Inr (y # ys)))"

text \<open>
  The nested comprehension \<^verbatim>\<open>[m for x in xs for m in f(x)]\<close>: the lists
  \<^verbatim>\<open>f(x)\<close> are spliced in the order of \<^verbatim>\<open>xs\<close>.
\<close>

fun flat_comprehension :: "('a \<Rightarrow> 'e + 'b list) \<Rightarrow> 'a list \<Rightarrow> 'e + 'b list" where
  "flat_comprehension f [] = Inr []"
| "flat_comprehension f (x # xs) =
     (case f x of
        Inl e \<Rightarrow> Inl e
      | Inr ys \<Rightarrow> (case flat_comprehension f xs of Inl e \<Rightarrow> Inl e | Inr zs \<Rightarrow> Inr (ys @ zs)))"

text \<open>\<^verbatim>\<open>sep.join(pieces)\<close>.\<close>

fun join :: "string \<Rightarrow> string list \<Rightarrow> string" where
  "join sep [] = []"
| "join sep [p] = p"
| "join sep (p # q # ps) = p @ sep @ join sep (q # ps)"

text \<open>
  The dictionary comprehension \<^verbatim>\<open>{k: e[k] for k in input_variables}\<close>: the keys
  are looked up in the order of the list, a missing one raises \<^verbatim>\<open>KeyError\<close>,
  and the new dictionary holds the keys of the list only.
\<close>

fun project_from :: "string list \<Rightarrow> 'v pydict \<Rightarrow> 'v pydict \<Rightarrow> 'x error + 'v pydict" where
  "project_from [] e acc = Inr acc"
| "project_from (k # ks) e acc =
     (case e k of
        None \<Rightarrow> Inl (KeyError k)
      | Some v \<Rightarrow> project_from ks e (acc(k \<mapsto> v)))"

definition project :: "string list \<Rightarrow> 'v pydict \<Rightarrow> 'x error + 'v pydict" where
  "project ks e = project_from ks e Map.empty"

subsection \<open>The string composer\<close>

text \<open>
  What the module uses of the example prompt (a \<^verbatim>\<open>PromptTemplate\<close>): its
  \<^verbatim>\<open>input_variables\<close> and its \<^verbatim>\<open>format(**kwargs)\<close>.
\<close>

record ('v, 'x) PromptTemplate =
  pt_input_variables :: "string list"
  pt_format :: "'v pydict \<Rightarrow> 'x + string"

text \<open>
  The fields of \<^verbatim>\<open>FewShotPromptTemplate\<close>. \<^verbatim>\<open>partial_variables\<close> is
  inherited from the base class; it is kept as a list of pairs because the
  validator enumerates its keys.
\<close>

record ('v, 'x) FewShotPromptTemplate = "('v, 'x) FewShotPromptTemplateMixin" +
  validate_template :: bool
  input_variables :: "string list"
  example_prompt :: "('v, 'x) PromptTemplate"
  suffix :: string
  example_separator :: string
  prefix :: string
  template_format :: string
  partial_variables :: "(string \<times> 'v) list"

text \<open>
  \<^verbatim>\<open>DEFAULT_FORMATTER_MAPPING\<close> is imported by the module: a dictionary from
  format names to formatting engines, taken as a parameter. Looking up a name
  that is not a key raises \<^verbatim>\<open>KeyError\<close>.
\<close>

type_synonym ('v, 'x) formatter_mapping = "string \<rightharpoonup> (string \<Rightarrow> 'v pydict \<Rightarrow> 'x + string)"

text \<open>
  Modelled from the spec: \<^verbatim>\<open>_merge_partial_and_user_variables\<close> is a method of the
  base class, which is not among the sources. The spec has the partial values
  fill what the caller did not supply, the caller's values taking precedence on
  a key collision.
\<close>

definition merge_partial_and_user_variables ::
  "('v, 'x, 'z) FewShotPromptTemplate_scheme \<Rightarrow> 'v pydict \<Rightarrow> 'v pydict" where
  "merge_partial_and_user_variables self kwargs = map_of (partial_variables self) ++ kwargs"

text \<open>
  \<^verbatim>\<open>template_is_valid(cls, values)\<close>, the root validator of the string composer.
  \<^verbatim>\<open>check_valid_template\<close> is imported by the module and is its first argument
  here.
\<close>

definition template_is_valid ::
  "(string \<Rightarrow> string \<Rightarrow> string list \<Rightarrow> 'x error + unit) \<Rightarrow>
   ('v, 'x) FewShotPromptTemplate \<Rightarrow> 'x error + ('v, 'x) FewShotPromptTemplate" where
  "template_is_valid check_template values =
     (if validate_template values then
        (case check_template (prefix values @ suffix values) (template_format values)
                (input_variables values @ map fst (partial_variables values)) of
           Inl e \<Rightarrow> Inl e
         | Inr u \<Rightarrow> Inr values)
      else Inr values)"

text \<open>
  Modelled from the spec: \<^verbatim>\<open>check_valid_template\<close> of
  \<^verbatim>\<open>langchain.prompts.base\<close> is not among the sources. By the spec the template
  text must reference exactly the declared variable set, with no undeclared and
  no unused placeholder, and a failure is a configuration error. The scanner
  that lists the placeholders of a template text under a format name belongs to
  the formatting engines and is the parameter \<open>placeholders\<close>.
\<close>

definition check_valid_template ::
  "(string \<Rightarrow> string \<Rightarrow> string list) \<Rightarrow> string \<Rightarrow> string \<Rightarrow> string list \<Rightarrow> 'x error + unit" where
  "check_valid_template placeholders template fmt declared =
     (if set (placeholders fmt template) = set declared then Inr ()
      else Inl (ValueError ''Invalid prompt schema; check for mismatched or missing input parameters.''))"

text \<open>
  Construction of a \<^verbatim>\<open>FewShotPromptTemplate\<close> from its field values: the
  \<^verbatim>\<open>pre=True\<close> validator of the mixin runs first, then the validator of the
  class; the instance holds the values given.
\<close>

definition new_FewShotPromptTemplate ::
  "(string \<Rightarrow> string \<Rightarrow> string list \<Rightarrow> 'x error + unit) \<Rightarrow>
   ('v, 'x) FewShotPromptTemplate \<Rightarrow> 'x error + ('v, 'x) FewShotPromptTemplate" where
  "new_FewShotPromptTemplate check_template values =
     (case check_examples_and_selector (examples values) (example_selector values) of
        Inl e \<Rightarrow> Inl e
      | Inr p \<Rightarrow> template_is_valid check_template values)"

text \<open>
  Lines 149 and 150 of \<^verbatim>\<open>format\<close>: the pieces and the intermediate template.
\<close>

definition template :: "('v, 'x, 'z) FewShotPromptTemplate_scheme \<Rightarrow> string list \<Rightarrow> string" where
  "template self example_strings =
     (let pieces = [prefix self] @ example_strings @ [suffix self]
      in join (example_separator self) (filter (\<lambda>piece. piece \<noteq> []) pieces))"

text \<open>\<^verbatim>\<open>FewShotPromptTemplate.format(self, **kwargs)\<close>.\<close>

definition format ::
  "('v, 'x) formatter_mapping \<Rightarrow> ('v, 'x, 'z) FewShotPromptTemplate_scheme \<Rightarrow> 'v pydict \<Rightarrow>
   'x error + string" where
  "format formatter_mapping self kwargs0 =
     (let kwargs = merge_partial_and_user_variables self kwargs0 in
      case get_examples self kwargs of
        Inl e \<Rightarrow> Inl e
      | Inr exs \<Rightarrow>
     (case comprehension (project (pt_input_variables (example_prompt self))) exs of
        Inl e \<Rightarrow> Inl e
      | Inr projected \<Rightarrow>
     (case comprehension (\<lambda>example. delegate (pt_format (example_prompt self) example)) projected of
        Inl e \<Rightarrow> Inl e
      | Inr example_strings \<Rightarrow>
     (case formatter_mapping (template_format self) of
        None \<Rightarrow> Inl (KeyError (template_format self))
      | Some formatter \<Rightarrow> delegate (formatter (template self example_strings) kwargs)))))"

text \<open>
  \<^verbatim>\<open>FewShotPromptTemplate.dict(self, **kwargs)\<close>. The serialisation of the base
  class, \<^verbatim>\<open>super().dict\<close>, is the first argument.
\<close>

definition dict ::
  "(('v, 'x) FewShotPromptTemplate \<Rightarrow> 'x + 'd) \<Rightarrow> ('v, 'x) FewShotPromptTemplate \<Rightarrow> 'x error + 'd" where
  "dict super_dict self =
     (if truthy_selector (example_selector self) then
        Inl (ValueError ''Saving an example selector is not currently supported'')
      else delegate (super_dict self))"

subsection \<open>The message composer\<close>

text \<open>
  An entry of \<^verbatim>\<open>prefix\<close> or \<^verbatim>\<open>suffix\<close> is a message, or a template with a
  \<^verbatim>\<open>format_messages(**kwargs)\<close>; the \<^verbatim>\<open>isinstance\<close> test of the source is the
  case distinction. Messages are values of an arbitrary type \<open>'m\<close>.
\<close>

datatype ('v, 'x, 'm) entry =
    Message 'm
  | MessageTemplate "'v pydict \<Rightarrow> 'x + 'm list"

record ('v, 'x, 'm) ChatPromptTemplate =
  ct_input_variables :: "string list"
  ct_format_messages :: "'v pydict \<Rightarrow> 'x + 'm list"

record ('v, 'x, 'm) FewShotChatMessagePromptTemplate = "('v, 'x) FewShotPromptTemplateMixin" +
  chat_prefix :: "('v, 'x, 'm) entry list"
  chat_example_prompt :: "('v, 'x, 'm) ChatPromptTemplate"
  chat_suffix :: "('v, 'x, 'm) entry list"

text \<open>
  The inner iterable of the prefix and suffix comprehensions:
  \<^verbatim>\<open>template.format_messages(**kwargs)\<close> for a template, \<^verbatim>\<open>[template]\<close>
  otherwise.
\<close>

fun expand :: "'v pydict \<Rightarrow> ('v, 'x, 'm) entry \<Rightarrow> 'x error + 'm list" where
  "expand kwargs (Message m) = Inr [m]"
| "expand kwargs (MessageTemplate t) = delegate (t kwargs)"

text \<open>\<^verbatim>\<open>FewShotChatMessagePromptTemplate.format_messages(self, **kwargs)\<close>.\<close>

definition format_messages ::
  "('v, 'x, 'm, 'z) FewShotChatMessagePromptTemplate_scheme \<Rightarrow> 'v pydict \<Rightarrow> 'x error + 'm list" where
  "format_messages self kwargs =
     (case get_examples self kwargs of
        Inl e \<Rightarrow> Inl e
      | Inr exs \<Rightarrow>
     (case comprehension (project (ct_input_variables (chat_example_prompt self))) exs of
        Inl e \<Rightarrow> Inl e
      | Inr projected \<Rightarrow>
     (case flat_comprehension (expand kwargs) (chat_prefix self) of
        Inl e \<Rightarrow> Inl e
      | Inr prefix_messages \<Rightarrow>
     (case flat_comprehension
             (\<lambda>example. delegate (ct_format_messages (chat_example_prompt self) example)) projected of
        Inl e \<Rightarrow> Inl e
      | Inr messages \<Rightarrow>
     (case flat_comprehension (expand kwargs) (chat_suffix self) of
        Inl e \<Rightarrow> Inl e
      | Inr suffix_messages \<Rightarrow> Inr (prefix_messages @ messages @ suffix_messages))))))"

text \<open>
  Construction of a \<^verbatim>\<open>FewShotChatMessagePromptTemplate\<close>: the validator of the
  mixin is the only one the module defines for it.
\<close>

definition new_FewShotChatMessagePromptTemplate ::
  "('v, 'x, 'm) FewShotChatMessagePromptTemplate \<Rightarrow>
   'x error + ('v, 'x, 'm) FewShotChatMessagePromptTemplate" where
  "new_FewShotChatMessagePromptTemplate values =
     (case check_examples_and_selector (examples values) (example_selector values) of
        Inl e \<Rightarrow> Inl e
      | Inr p \<Rightarrow> Inr values)"

subsection \<open>Sample collaborators\<close>

text \<open>
  Modelled from the spec: the formatting engines behind
  \<^verbatim>\<open>DEFAULT_FORMATTER_MAPPING\<close> are not among the sources; the spec names
  plain placeholder substitution as one of them. The following minimal engine
  stands for it where a concrete engine is needed: a placeholder is a name
  between braces, it is replaced by the value of that name, and a name without
  a value is a failure that carries the name. \<open>fstring_placeholders\<close> lists
  the names a text references, \<open>fstring_formatter\<close> substitutes them.
\<close>

fun scan_placeholders :: "string \<Rightarrow> string option \<Rightarrow> string list" where
  "scan_placeholders [] cur = []"
| "scan_placeholders (c # cs) None =
     (if c = CHR ''{'' then scan_placeholders cs (Some []) else scan_placeholders cs None)"
| "scan_placeholders (c # cs) (Some name) =
     (if c = CHR ''}'' then name # scan_placeholders cs None
      else scan_placeholders cs (Some (name @ [c])))"

definition fstring_placeholders :: "string \<Rightarrow> string \<Rightarrow> string list" where
  "fstring_placeholders fmt text = scan_placeholders text None"

fun substitute :: "string \<Rightarrow> string option \<Rightarrow> string pydict \<Rightarrow> string + string" where
  "substitute [] cur kwargs = Inr []"
| "substitute (c # cs) None kwargs =
     (if c = CHR ''{'' then substitute cs (Some []) kwargs
      else (case substitute cs None kwargs of Inl n \<Rightarrow> Inl n | Inr out \<Rightarrow> Inr (c # out)))"
| "substitute (c # cs) (Some name) kwargs =
     (if c = CHR ''}'' then
        (case kwargs name of
           None \<Rightarrow> Inl name
         | Some v \<Rightarrow> (case substitute cs None kwargs of Inl n \<Rightarrow> Inl n | Inr out \<Rightarrow> Inr (v @ out)))
      else substitute cs (Some (name @ [c])) kwargs)"

definition fstring_formatter :: "string \<Rightarrow> string pydict \<Rightarrow> string + string" where
  "fstring_formatter text kwargs = substitute text None kwargs"

text \<open>
  Messages are opaque to the module. Where concrete messages are needed they
  are values of the following type, one constructor for each role of the
  docstring's conversation.
\<close>

datatype message = SystemMessage string | HumanMessage string | AIMessage string

text \<open>
  Message templates over the minimal engine, after
  \<^verbatim>\<open>HumanMessagePromptTemplate.from_template\<close>,
  \<^verbatim>\<open>AIMessagePromptTemplate.from_template\<close> and
  \<^verbatim>\<open>ChatPromptTemplate.from_messages\<close> of the docstring.
\<close>

definition human_message_template :: "string \<Rightarrow> string pydict \<Rightarrow> string + message list" where
  "human_message_template text kwargs =
     (case fstring_formatter text kwargs of Inl n \<Rightarrow> Inl n | Inr s \<Rightarrow> Inr [HumanMessage s])"

definition ai_message_template :: "string \<Rightarrow> string pydict \<Rightarrow> string + message list" where
  "ai_message_template text kwargs =
     (case fstring_formatter text kwargs of Inl n \<Rightarrow> Inl n | Inr s \<Rightarrow> Inr [AIMessage s])"

definition chat_template_from_messages ::
  "(string pydict \<Rightarrow> string + message list) list \<Rightarrow> string pydict \<Rightarrow> string + message list" where
  "chat_template_from_messages templates kwargs = flat_comprehension (\<lambda>t. t kwargs) templates"

text \<open>
  Two sample configurations over a list of examples. The string composer
  renders an example as its question followed by its answer; the message
  composer is the one of the docstring of
  \<^verbatim>\<open>FewShotChatMessagePromptTemplate\<close>.
\<close>

definition sample_formatter_mapping :: "(string, string) formatter_mapping" where
  "sample_formatter_mapping = [''f-string'' \<mapsto> fstring_formatter]"

definition sample_prompt :: "string pydict list \<Rightarrow> (string, string) FewShotPromptTemplate" where
  "sample_prompt exs =
     \<lparr>examples = Some exs, example_selector = None,
      validate_template = True,
      input_variables = [''q''],
      example_prompt = \<lparr>pt_input_variables = [''q'', ''a''], pt_format = fstring_formatter ''{q}{a}''\<rparr>,
      suffix = ''{q}='',
      example_separator = '', '',
      prefix = ''Add:'',
      template_format = ''f-string'',
      partial_variables = []\<rparr>"

definition sample_chat_prompt ::
  "string pydict list \<Rightarrow> (string, string, message) FewShotChatMessagePromptTemplate" where
  "sample_chat_prompt exs =
     \<lparr>examples = Some exs, example_selector = None,
      chat_prefix = [Message (SystemMessage ''M0'')],
      chat_example_prompt =
        \<lparr>ct_input_variables = [''input'', ''output''],
         ct_format_messages =
           chat_template_from_messages
             [human_message_template ''{input}'', ai_message_template ''{output}'']\<rparr>,
      chat_suffix = [MessageTemplate (human_message_template ''{input}'')]\<rparr>"

text \<open>
  Two sample selectors. The first returns the keyword arguments as its one
  example and has the truth value of an object whose class defines neither
  \<^verbatim>\<open>__bool__\<close> nor \<^verbatim>\<open>__len__\<close>. The second holds no examples and its class
  defines \<^verbatim>\<open>__len__\<close> as their number, so that its truth value is false.
\<close>

definition echo_selector :: "(string, string) BaseExampleSelector" where
  "echo_selector = \<lparr>select_examples = (\<lambda>kwargs. Inr [kwargs]), truth_value = True\<rparr>"

definition empty_selector :: "(string, string) BaseExampleSelector" where
  "empty_selector = \<lparr>select_examples = (\<lambda>kwargs. Inr []), truth_value = False\<rparr>"

text \<open>
  A second sample engine, which substitutes nothing: under it the result of
  \<^verbatim>\<open>format\<close> is the intermediate template itself.
\<close>

definition verbatim_formatter_mapping :: "(string, string) formatter_mapping" where
  "verbatim_formatter_mapping = [''f-string'' \<mapsto> (\<lambda>text kwargs. Inr text)]"

section \<open>Properties\<close>

subsection \<open>Construction and example acquisition\<close>

text \<open>
  Claim C1. The claim has construction fail whenever both \<^verbatim>\<open>examples\<close> and
  \<^verbatim>\<open>example_selector\<close> are provided. The validator tests the two by their
  truth values, so an empty list of examples together with a selector passes it:
  the validator returns the values, and the message composer is constructed
  with both fields set.
\<close>

theorem check_examples_and_selector_empty_examples_with_selector:
  "check_examples_and_selector (Some []) (Some sel) = Inr (Some [], Some sel) \<and>
   new_FewShotChatMessagePromptTemplate
     \<lparr>examples = Some [], example_selector = Some sel,
      chat_prefix = p, chat_example_prompt = ep, chat_suffix = s\<rparr>
   = Inr \<lparr>examples = Some [], example_selector = Some sel,
      chat_prefix = p, chat_example_prompt = ep, chat_suffix = s\<rparr>"
  by (simp add: check_examples_and_selector_def new_FewShotChatMessagePromptTemplate_def)

text \<open>
  Claim C2. For every instance that passed the validator of the mixin: when
  \<^verbatim>\<open>examples\<close> is set, \<^verbatim>\<open>_get_examples\<close> returns that list itself, whatever
  the keyword arguments are; when it is not set, a selector is, and
  \<^verbatim>\<open>_get_examples\<close> returns what \<^verbatim>\<open>select_examples\<close> returns (or raises) on the
  keyword arguments it was given.
\<close>

theorem get_examples_static_or_selected:
  assumes "check_examples_and_selector (examples self) (example_selector self) = Inr p"
  shows "(\<forall>exs. examples self = Some exs \<longrightarrow> (\<forall>kwargs. get_examples self kwargs = Inr exs)) \<and>
         (examples self = None \<longrightarrow>
            (\<exists>sel. example_selector self = Some sel \<and>
                   (\<forall>kwargs. get_examples self kwargs = delegate (select_examples sel kwargs))))"
  using assms
  by (cases "example_selector self")
     (auto simp: get_examples_def check_examples_and_selector_def split: if_splits)

theorem get_examples_static_or_selected_witness:
  "get_examples \<lparr>examples = Some [[''q'' \<mapsto> ''2+2''], [''q'' \<mapsto> ''2+3'']], example_selector = None\<rparr>
       [''q'' \<mapsto> ''4+4'']
     = (Inr [[''q'' \<mapsto> ''2+2''], [''q'' \<mapsto> ''2+3'']]
          :: string error + (string \<rightharpoonup> string) list) \<and>
   get_examples \<lparr>examples = Some [], example_selector = None\<rparr> [''q'' \<mapsto> ''4+4'']
     = (Inr [] :: string error + (string \<rightharpoonup> string) list) \<and>
   get_examples \<lparr>examples = None, example_selector = Some echo_selector\<rparr> [''q'' \<mapsto> ''4+4'']
     = Inr [[''q'' \<mapsto> ''4+4'']] \<and>
   get_examples \<lparr>examples = None, example_selector = Some empty_selector\<rparr> [''q'' \<mapsto> ''4+4'']
     = Inr []"
  using get_examples_static_or_selected
          [of "\<lparr>examples = Some [[''q'' \<mapsto> ''2+2''], [''q'' \<mapsto> ''2+3'']],
                example_selector = (None :: (string, string) BaseExampleSelector option)\<rparr>"
              "(Some [[''q'' \<mapsto> ''2+2''], [''q'' \<mapsto> ''2+3'']], None)"]
        get_examples_static_or_selected
          [of "\<lparr>examples = Some [],
                example_selector = (None :: (string, string) BaseExampleSelector option)\<rparr>"
              "(Some [], None)"]
        get_examples_static_or_selected
          [of "\<lparr>examples = None, example_selector = Some echo_selector\<rparr>"
              "(None, Some echo_selector)"]
        get_examples_static_or_selected
          [of "\<lparr>examples = None, example_selector = Some empty_selector\<rparr>"
              "(None, Some empty_selector)"]
  by (simp add: check_examples_and_selector_def echo_selector_def empty_selector_def)

text \<open>
  Claim C8. An instance that passed the validator of the mixin has
  \<^verbatim>\<open>examples\<close> or \<^verbatim>\<open>example_selector\<close> set, and no call of
  \<^verbatim>\<open>_get_examples\<close> on it raises the \<^verbatim>\<open>ValueError\<close> of the last branch (or any
  \<^verbatim>\<open>ValueError\<close> of the module's own).
\<close>

theorem get_examples_defensive_branch_unreachable:
  assumes "check_examples_and_selector (examples self) (example_selector self) = Inr p"
  shows "(examples self \<noteq> None \<or> example_selector self \<noteq> None) \<and>
         (\<forall>kwargs msg. get_examples self kwargs \<noteq> Inl (ValueError msg))"
proof -
  from assms have some: "examples self \<noteq> None \<or> example_selector self \<noteq> None"
    by (auto simp: check_examples_and_selector_def split: if_splits)
  have "get_examples self kwargs \<noteq> Inl (ValueError msg)" for kwargs msg
  proof (cases "examples self")
    case (Some exs)
    then show ?thesis by (simp add: get_examples_def)
  next
    case None
    with some obtain sel where "example_selector self = Some sel" by auto
    with None show ?thesis
      by (cases "select_examples sel kwargs") (simp_all add: get_examples_def)
  qed
  with some show ?thesis by blast
qed

theorem get_examples_defensive_branch_unreachable_witness:
  "(\<forall>msg. get_examples \<lparr>examples = Some [], example_selector = None\<rparr> [''q'' \<mapsto> ''4+4'']
      \<noteq> (Inl (ValueError msg) :: string error + (string \<rightharpoonup> string) list)) \<and>
   (\<forall>msg. get_examples \<lparr>examples = None, example_selector = Some empty_selector\<rparr> [''q'' \<mapsto> ''4+4'']
      \<noteq> Inl (ValueError msg)) \<and>
   (\<forall>msg. get_examples
             \<lparr>examples = None,
              example_selector = Some \<lparr>select_examples = (\<lambda>kw. Inl ''down''), truth_value = True\<rparr>\<rparr>
             [''q'' \<mapsto> ''4+4'']
      \<noteq> (Inl (ValueError msg) :: string error + (string \<rightharpoonup> string) list))"
  using get_examples_defensive_branch_unreachable
          [of "\<lparr>examples = Some [],
                example_selector = (None :: (string, string) BaseExampleSelector option)\<rparr>"
              "(Some [], None)"]
        get_examples_defensive_branch_unreachable
          [of "\<lparr>examples = None, example_selector = Some empty_selector\<rparr>"
              "(None, Some empty_selector)"]
        get_examples_defensive_branch_unreachable
          [of "\<lparr>examples = None,
                example_selector = Some \<lparr>select_examples = (\<lambda>kw. Inl ''down''), truth_value = True\<rparr>\<rparr>"
              "(None, Some \<lparr>select_examples = (\<lambda>kw. Inl ''down''), truth_value = True\<rparr>)"]
  by (simp add: check_examples_and_selector_def empty_selector_def get_examples_def)

subsection \<open>Auxiliary facts\<close>

lemma join_Cons: "join sep (p # ps) = p @ concat (map (\<lambda>q. sep @ q) ps)"
  by (induction ps arbitrary: p) simp_all

lemma join_contains: "p \<in> set ps \<Longrightarrow> \<exists>a b. join sep ps = a @ p @ b"
proof (induction ps)
  case Nil
  then show ?case by simp
next
  case (Cons q ps)
  show ?case
  proof (cases "p = q")
    case True
    have "join sep (q # ps) = [] @ q @ concat (map (\<lambda>r. sep @ r) ps)"
      by (simp add: join_Cons)
    with True show ?thesis by blast
  next
    case False
    with Cons.prems have "p \<in> set ps" by simp
    then obtain a b where ab: "join sep ps = a @ p @ b" using Cons.IH by blast
    from \<open>p \<in> set ps\<close> obtain r rs where ps: "ps = r # rs" by (cases ps) auto
    have "join sep (q # ps) = (q @ sep @ a) @ p @ b"
      using ab by (simp add: ps)
    then show ?thesis by blast
  qed
qed

lemma template_eq:
  "template self rs =
     join (example_separator self) (filter (\<lambda>p. p \<noteq> []) (prefix self # rs @ [suffix self]))"
  by (simp add: template_def)

lemma comprehension_append:
  "comprehension f (xs @ ys) =
     (case comprehension f xs of
        Inl e \<Rightarrow> Inl e
      | Inr as \<Rightarrow> (case comprehension f ys of Inl e \<Rightarrow> Inl e | Inr bs \<Rightarrow> Inr (as @ bs)))"
  by (induction xs) (simp_all split: sum.splits)

lemma rendered_in_order:
  assumes "list_all2 (\<lambda>e r. \<exists>p. f e = Inr p \<and> g p = Inr r) exs rs"
  shows "\<exists>ps. comprehension f exs = Inr ps \<and> comprehension g ps = Inr rs"
  using assms
proof (induction rule: list_all2_induct)
  case Nil
  then show ?case by simp
next
  case (Cons e exs r rs)
  then obtain p ps where "f e = Inr p" "g p = Inr r"
    "comprehension f exs = Inr ps" "comprehension g ps = Inr rs" by blast
  then have "comprehension f (e # exs) = Inr (p # ps) \<and> comprehension g (p # ps) = Inr (r # rs)"
    by simp
  then show ?case by blast
qed

lemma format_rendered:
  assumes "get_examples self (merge_partial_and_user_variables self kwargs) = Inr exs"
    and "comprehension (project (pt_input_variables (example_prompt self))) exs
           = (Inr ps :: 'x error + 'v pydict list)"
    and "comprehension (\<lambda>example. delegate (pt_format (example_prompt self) example)) ps = Inr rs"
  shows "format formatter_mapping (self :: ('v, 'x, 'z) FewShotPromptTemplate_scheme) kwargs =
     (case formatter_mapping (template_format self) of
        None \<Rightarrow> Inl (KeyError (template_format self))
      | Some formatter \<Rightarrow>
          delegate (formatter (template self rs) (merge_partial_and_user_variables self kwargs)))"
  using assms by (simp add: format_def Let_def)

lemma delegate_Inr_iff: "delegate r = Inr a \<longleftrightarrow> r = Inr a"
  by (cases r) simp_all

lemma template_drop_empty:
  "template self (rs1 @ [] # rs2) = template self (rs1 @ rs2)"
  by (simp add: template_eq)













lemmas sample_defs =
  sample_formatter_mapping_def sample_prompt_def sample_chat_prompt_def
  fstring_formatter_def fstring_placeholders_def
  human_message_template_def ai_message_template_def chat_template_from_messages_def
  get_examples_def merge_partial_and_user_variables_def project_def template_def

lemma flat_rendered_in_order:
  assumes "list_all2 (\<lambda>e ms. \<exists>p. f e = Inr p \<and> g p = Inr ms) exs mss"
  shows "\<exists>ps. comprehension f exs = Inr ps \<and> flat_comprehension g ps = Inr (concat mss)"
  using assms
proof (induction rule: list_all2_induct)
  case Nil
  then show ?case by simp
next
  case (Cons e exs ms mss)
  then obtain p ps where "f e = Inr p" "g p = Inr ms"
    "comprehension f exs = Inr ps" "flat_comprehension g ps = Inr (concat mss)" by blast
  then have "comprehension f (e # exs) = Inr (p # ps) \<and>
             flat_comprehension g (p # ps) = Inr (concat (ms # mss))"
    by simp
  then show ?case by blast
qed

lemma flat_comprehension_Inr:
  "list_all2 (\<lambda>x ys. f x = Inr ys) xs yss \<Longrightarrow> flat_comprehension f xs = Inr (concat yss)"
  by (induction rule: list_all2_induct) simp_all

lemma join_snoc: "join sep (rs @ [s]) = concat (map (\<lambda>r. r @ sep) rs) @ s"
proof (induction rs)
  case Nil
  then show ?case by simp
next
  case (Cons r rs)
  then show ?case by (cases rs) simp_all
qed

lemma template_retained_pieces:
  "template self rs =
     (case filter (\<lambda>piece. piece \<noteq> []) (prefix self # rs @ [suffix self]) of
        [] \<Rightarrow> []
      | p # ps \<Rightarrow> p @ concat (map (\<lambda>q. example_separator self @ q) ps))"
  unfolding template_eq
  by (cases "filter (\<lambda>piece. piece \<noteq> []) (prefix self # rs @ [suffix self])")
     (simp_all add: join_Cons)

lemma template_all_pieces:
  assumes "prefix self \<noteq> []" "suffix self \<noteq> []" "\<forall>r \<in> set rs. r \<noteq> []"
  shows "template self rs =
           prefix self @ concat (map (\<lambda>r. example_separator self @ r) rs)
             @ example_separator self @ suffix self"
proof -
  from assms(3) have "filter (\<lambda>piece. piece \<noteq> []) rs = rs" by (simp add: filter_id_conv)
  with assms(1,2) show ?thesis
    unfolding template_eq by (simp add: join_Cons)
qed

lemma template_no_prefix:
  assumes "prefix self = []" "suffix self \<noteq> []" "\<forall>r \<in> set rs. r \<noteq> []"
  shows "template self rs =
           concat (map (\<lambda>r. r @ example_separator self) rs) @ suffix self"
proof -
  from assms(3) have "filter (\<lambda>piece. piece \<noteq> []) rs = rs" by (simp add: filter_id_conv)
  with assms(1,2) show ?thesis
    unfolding template_eq by (simp add: join_snoc)
qed

lemma template_no_suffix:
  assumes "prefix self \<noteq> []" "suffix self = []" "\<forall>r \<in> set rs. r \<noteq> []"
  shows "template self rs =
           prefix self @ concat (map (\<lambda>r. example_separator self @ r) rs)"
proof -
  from assms(3) have "filter (\<lambda>piece. piece \<noteq> []) rs = rs" by (simp add: filter_id_conv)
  with assms(1,2) show ?thesis
    unfolding template_eq by (simp add: join_Cons)
qed

lemma format_of_rendered:
  fixes self :: "('v, 'x, 'z) FewShotPromptTemplate_scheme"
  assumes "get_examples self (merge_partial_and_user_variables self kwargs) = Inr exs"
    and "list_all2
           (\<lambda>e r. \<exists>p. project (pt_input_variables (example_prompt self)) e
                          = (Inr p :: 'x error + 'v pydict) \<and>
                       pt_format (example_prompt self) p = Inr r) exs rs"
    and "formatter_mapping (template_format self) = Some formatter"
  shows "format formatter_mapping self kwargs =
           delegate (formatter (template self rs) (merge_partial_and_user_variables self kwargs))"
proof -
  from assms(2) have
    "list_all2
       (\<lambda>e r. \<exists>p. project (pt_input_variables (example_prompt self)) e
                     = (Inr p :: 'x error + 'v pydict) \<and>
                   delegate (pt_format (example_prompt self) p) = Inr r) exs rs"
    by (simp add: delegate_Inr_iff)
  from rendered_in_order [OF this] obtain ps where
    ps: "comprehension (project (pt_input_variables (example_prompt self))) exs
           = (Inr ps :: 'x error + 'v pydict list)"
    and rs: "comprehension (\<lambda>example. delegate (pt_format (example_prompt self) example)) ps = Inr rs"
    by blast
  show ?thesis
    using format_rendered [OF assms(1) ps rs, of formatter_mapping] assms(3) by simp
qed

subsection \<open>Composition\<close>

text \<open>
  Claim C3. Let \<^verbatim>\<open>format\<close> acquire the example records \<open>exs\<close>, in that order,
  and let \<open>rs\<close> be their renderings through \<^verbatim>\<open>example_prompt\<close>, record by
  record in the same order. The text that \<^verbatim>\<open>format\<close> hands to the formatting
  engine is made of the pieces \<^verbatim>\<open>[prefix, *rs, suffix]\<close> that are not empty:
  the first retained piece, then each further retained piece behind exactly one
  \<^verbatim>\<open>example_separator\<close>. When no piece is empty this is the prefix, the
  renderings in the order of the records, and the suffix, with one separator
  between neighbours; with an empty prefix the text starts with the first
  rendering, and with an empty suffix it ends with the last one, so neither
  brings a separator of its own. The engine is arbitrary, so the statement
  fixes the text itself.
\<close>

theorem format_joins_rendered_examples_in_order:
  fixes self :: "('v, 'x, 'z) FewShotPromptTemplate_scheme"
  assumes "get_examples self (merge_partial_and_user_variables self kwargs) = Inr exs"
    and "list_all2
           (\<lambda>e r. \<exists>p. project (pt_input_variables (example_prompt self)) e
                          = (Inr p :: 'x error + 'v pydict) \<and>
                       pt_format (example_prompt self) p = Inr r) exs rs"
    and "formatter_mapping (template_format self) = Some formatter"
  shows
  "format formatter_mapping self kwargs =
     delegate (formatter
       (case filter (\<lambda>piece. piece \<noteq> []) (prefix self # rs @ [suffix self]) of
          [] \<Rightarrow> []
        | p # ps \<Rightarrow> p @ concat (map (\<lambda>q. example_separator self @ q) ps))
       (merge_partial_and_user_variables self kwargs)) \<and>
   (prefix self \<noteq> [] \<and> suffix self \<noteq> [] \<and> (\<forall>r \<in> set rs. r \<noteq> []) \<longrightarrow>
      format formatter_mapping self kwargs =
        delegate (formatter
          (prefix self @ concat (map (\<lambda>r. example_separator self @ r) rs)
             @ example_separator self @ suffix self)
          (merge_partial_and_user_variables self kwargs))) \<and>
   (prefix self = [] \<and> suffix self \<noteq> [] \<and> (\<forall>r \<in> set rs. r \<noteq> []) \<longrightarrow>
      format formatter_mapping self kwargs =
        delegate (formatter
          (concat (map (\<lambda>r. r @ example_separator self) rs) @ suffix self)
          (merge_partial_and_user_variables self kwargs))) \<and>
   (prefix self \<noteq> [] \<and> suffix self = [] \<and> (\<forall>r \<in> set rs. r \<noteq> []) \<longrightarrow>
      format formatter_mapping self kwargs =
        delegate (formatter
          (prefix self @ concat (map (\<lambda>r. example_separator self @ r) rs))
          (merge_partial_and_user_variables self kwargs)))"
proof -
  have result: "format formatter_mapping self kwargs =
      delegate (formatter (template self rs) (merge_partial_and_user_variables self kwargs))"
    using assms by (rule format_of_rendered)
  have general: "format formatter_mapping self kwargs =
     delegate (formatter
       (case filter (\<lambda>piece. piece \<noteq> []) (prefix self # rs @ [suffix self]) of
          [] \<Rightarrow> []
        | p # ps \<Rightarrow> p @ concat (map (\<lambda>q. example_separator self @ q) ps))
       (merge_partial_and_user_variables self kwargs))"
    using result by (simp only: template_retained_pieces)
  have full: "format formatter_mapping self kwargs =
        delegate (formatter
          (prefix self @ concat (map (\<lambda>r. example_separator self @ r) rs)
             @ example_separator self @ suffix self)
          (merge_partial_and_user_variables self kwargs))"
    if "prefix self \<noteq> []" "suffix self \<noteq> []" "\<forall>r \<in> set rs. r \<noteq> []"
    using result template_all_pieces [OF that] by simp
  have nopre: "format formatter_mapping self kwargs =
        delegate (formatter
          (concat (map (\<lambda>r. r @ example_separator self) rs) @ suffix self)
          (merge_partial_and_user_variables self kwargs))"
    if "prefix self = []" "suffix self \<noteq> []" "\<forall>r \<in> set rs. r \<noteq> []"
    using result template_no_prefix [OF that] by simp
  have nosuf: "format formatter_mapping self kwargs =
        delegate (formatter
          (prefix self @ concat (map (\<lambda>r. example_separator self @ r) rs))
          (merge_partial_and_user_variables self kwargs))"
    if "prefix self \<noteq> []" "suffix self = []" "\<forall>r \<in> set rs. r \<noteq> []"
    using result template_no_suffix [OF that] by simp
  from general full nopre nosuf show ?thesis by blast
qed

theorem format_joins_rendered_examples_in_order_witness:
  "format verbatim_formatter_mapping
      (sample_prompt [[''q'' \<mapsto> ''1+1='', ''a'' \<mapsto> ''2''], [''q'' \<mapsto> ''2+2='', ''a'' \<mapsto> ''4''],
                      [''q'' \<mapsto> ''3+3='', ''a'' \<mapsto> ''6'']])
      [''q'' \<mapsto> ''4+4'']
     = Inr ''Add:, 1+1=2, 2+2=4, 3+3=6, {q}='' \<and>
   format sample_formatter_mapping
      (sample_prompt [[''q'' \<mapsto> ''1+1='', ''a'' \<mapsto> ''2''], [''q'' \<mapsto> ''2+2='', ''a'' \<mapsto> ''4''],
                      [''q'' \<mapsto> ''3+3='', ''a'' \<mapsto> ''6'']])
      [''q'' \<mapsto> ''4+4'']
     = Inr ''Add:, 1+1=2, 2+2=4, 3+3=6, 4+4='' \<and>
   format verbatim_formatter_mapping
      ((sample_prompt [[''q'' \<mapsto> ''1+1='', ''a'' \<mapsto> ''2''], [''q'' \<mapsto> ''2+2='', ''a'' \<mapsto> ''4'']])
         \<lparr>prefix := []\<rparr>)
      [''q'' \<mapsto> ''4+4'']
     = Inr ''1+1=2, 2+2=4, {q}='' \<and>
   format verbatim_formatter_mapping
      ((sample_prompt [[''q'' \<mapsto> ''1+1='', ''a'' \<mapsto> ''2''], [''q'' \<mapsto> ''2+2='', ''a'' \<mapsto> ''4'']])
         \<lparr>suffix := []\<rparr>)
      [''q'' \<mapsto> ''4+4'']
     = Inr ''Add:, 1+1=2, 2+2=4''"
  using format_joins_rendered_examples_in_order
          [where self = "sample_prompt [[''q'' \<mapsto> ''1+1='', ''a'' \<mapsto> ''2''],
                            [''q'' \<mapsto> ''2+2='', ''a'' \<mapsto> ''4''], [''q'' \<mapsto> ''3+3='', ''a'' \<mapsto> ''6'']]"
             and kwargs = "[''q'' \<mapsto> ''4+4'']"
             and exs = "[[''q'' \<mapsto> ''1+1='', ''a'' \<mapsto> ''2''],
                            [''q'' \<mapsto> ''2+2='', ''a'' \<mapsto> ''4''], [''q'' \<mapsto> ''3+3='', ''a'' \<mapsto> ''6'']]"
             and rs = "[''1+1=2'', ''2+2=4'', ''3+3=6'']"
             and formatter_mapping = verbatim_formatter_mapping
             and formatter = "\<lambda>text kwargs. Inr text"]
        format_joins_rendered_examples_in_order
          [where self = "sample_prompt [[''q'' \<mapsto> ''1+1='', ''a'' \<mapsto> ''2''],
                            [''q'' \<mapsto> ''2+2='', ''a'' \<mapsto> ''4''], [''q'' \<mapsto> ''3+3='', ''a'' \<mapsto> ''6'']]"
             and kwargs = "[''q'' \<mapsto> ''4+4'']"
             and exs = "[[''q'' \<mapsto> ''1+1='', ''a'' \<mapsto> ''2''],
                            [''q'' \<mapsto> ''2+2='', ''a'' \<mapsto> ''4''], [''q'' \<mapsto> ''3+3='', ''a'' \<mapsto> ''6'']]"
             and rs = "[''1+1=2'', ''2+2=4'', ''3+3=6'']"
             and formatter_mapping = sample_formatter_mapping
             and formatter = fstring_formatter]
        format_joins_rendered_examples_in_order
          [where self = "(sample_prompt [[''q'' \<mapsto> ''1+1='', ''a'' \<mapsto> ''2''],
                            [''q'' \<mapsto> ''2+2='', ''a'' \<mapsto> ''4'']])\<lparr>prefix := []\<rparr>"
             and kwargs = "[''q'' \<mapsto> ''4+4'']"
             and exs = "[[''q'' \<mapsto> ''1+1='', ''a'' \<mapsto> ''2''], [''q'' \<mapsto> ''2+2='', ''a'' \<mapsto> ''4'']]"
             and rs = "[''1+1=2'', ''2+2=4'']"
             and formatter_mapping = verbatim_formatter_mapping
             and formatter = "\<lambda>text kwargs. Inr text"]
        format_joins_rendered_examples_in_order
          [where self = "(sample_prompt [[''q'' \<mapsto> ''1+1='', ''a'' \<mapsto> ''2''],
                            [''q'' \<mapsto> ''2+2='', ''a'' \<mapsto> ''4'']])\<lparr>suffix := []\<rparr>"
             and kwargs = "[''q'' \<mapsto> ''4+4'']"
             and exs = "[[''q'' \<mapsto> ''1+1='', ''a'' \<mapsto> ''2''], [''q'' \<mapsto> ''2+2='', ''a'' \<mapsto> ''4'']]"
             and rs = "[''1+1=2'', ''2+2=4'']"
             and formatter_mapping = verbatim_formatter_mapping
             and formatter = "\<lambda>text kwargs. Inr text"]
  by (simp add: sample_defs verbatim_formatter_mapping_def)

text \<open>
  Claim C4. When the examples are acquired, every prefix and suffix entry
  expands and every projected example expands through \<^verbatim>\<open>example_prompt\<close>,
  \<^verbatim>\<open>format_messages\<close> returns the prefix messages, then the messages of the
  examples in the order of the examples (each example's messages in their own
  order), then the suffix messages. A literal message expands to itself, a
  template to what its \<^verbatim>\<open>format_messages\<close> returns on the keyword arguments.
  The witness is the conversation of the spec: one prefix message, one example
  of two messages, one suffix template.
\<close>

theorem format_messages_concatenates:
  fixes self :: "('v, 'x, 'm, 'z) FewShotChatMessagePromptTemplate_scheme"
  assumes "get_examples self kwargs = Inr exs"
    and "list_all2
           (\<lambda>e ms. \<exists>p. project (ct_input_variables (chat_example_prompt self)) e
                           = (Inr p :: 'x error + 'v pydict) \<and>
                        ct_format_messages (chat_example_prompt self) p = Inr ms) exs example_messages"
    and "list_all2 (\<lambda>entry ms. expand kwargs entry = Inr ms) (chat_prefix self) prefix_messages"
    and "list_all2 (\<lambda>entry ms. expand kwargs entry = Inr ms) (chat_suffix self) suffix_messages"
  shows "format_messages self kwargs =
           Inr (concat prefix_messages @ concat example_messages @ concat suffix_messages) \<and>
         (\<forall>m. expand kwargs (Message m :: ('v, 'x, 'm) entry) = Inr [m]) \<and>
         (\<forall>t. expand kwargs (MessageTemplate t :: ('v, 'x, 'm) entry) = delegate (t kwargs))"
proof -
  from assms(2) have
    "list_all2
       (\<lambda>e ms. \<exists>p. project (ct_input_variables (chat_example_prompt self)) e
                       = (Inr p :: 'x error + 'v pydict) \<and>
                    delegate (ct_format_messages (chat_example_prompt self) p) = Inr ms)
       exs example_messages"
    by (simp add: delegate_Inr_iff)
  from flat_rendered_in_order [OF this] obtain ps where
    ps: "comprehension (project (ct_input_variables (chat_example_prompt self))) exs
           = (Inr ps :: 'x error + 'v pydict list)"
    and ms: "flat_comprehension
               (\<lambda>example. delegate (ct_format_messages (chat_example_prompt self) example)) ps
             = Inr (concat example_messages)"
    by blast
  note pre = flat_comprehension_Inr [OF assms(3)]
  note suf = flat_comprehension_Inr [OF assms(4)]
  from assms(1) ps ms pre suf show ?thesis
    by (simp add: format_messages_def)
qed

theorem format_messages_concatenates_witness:
  "format_messages (sample_chat_prompt [[''input'' \<mapsto> ''2+2'', ''output'' \<mapsto> ''4'']])
      [''input'' \<mapsto> ''What is 4+4?'']
     = Inr [SystemMessage ''M0'', HumanMessage ''2+2'', AIMessage ''4'', HumanMessage ''What is 4+4?'']"
  using format_messages_concatenates
          [where self = "sample_chat_prompt [[''input'' \<mapsto> ''2+2'', ''output'' \<mapsto> ''4'']]"
             and kwargs = "[''input'' \<mapsto> ''What is 4+4?'']"
             and exs = "[[''input'' \<mapsto> ''2+2'', ''output'' \<mapsto> ''4'']]"
             and example_messages = "[[HumanMessage ''2+2'', AIMessage ''4'']]"
             and prefix_messages = "[[SystemMessage ''M0'']]"
             and suffix_messages = "[[HumanMessage ''What is 4+4?'']]"]
  by (simp add: sample_defs)



text \<open>
  Claim C6. With \<^verbatim>\<open>validate_template\<close> true, construction of the string
  composer checks the text \<^verbatim>\<open>prefix + suffix\<close> against
  \<^verbatim>\<open>input_variables\<close> plus the names of the partial variables: a placeholder
  outside that list, or a name of that list that the text does not reference,
  makes construction fail with a \<^verbatim>\<open>ValueError\<close>, so that no instance exists
  to be formatted; a consistent text is accepted, and so is any text when the
  flag is false. \<^verbatim>\<open>format\<close> does not read the flag: the check is made at
  construction only.
\<close>

theorem template_checked_at_construction:
  fixes vals :: "('v, 'x) FewShotPromptTemplate"
  assumes "check_examples_and_selector (examples vals) (example_selector vals) = Inr p"
  shows
  "(validate_template vals \<and>
    v \<in> set (placeholders (template_format vals) (prefix vals @ suffix vals)) \<and>
    v \<notin> set (input_variables vals @ map fst (partial_variables vals))
    \<longrightarrow> (\<exists>msg. new_FewShotPromptTemplate (check_valid_template placeholders) vals
                  = Inl (ValueError msg))) \<and>
   (validate_template vals \<and>
    v \<in> set (input_variables vals @ map fst (partial_variables vals)) \<and>
    v \<notin> set (placeholders (template_format vals) (prefix vals @ suffix vals))
    \<longrightarrow> (\<exists>msg. new_FewShotPromptTemplate (check_valid_template placeholders) vals
                  = Inl (ValueError msg))) \<and>
   (validate_template vals \<and>
    set (placeholders (template_format vals) (prefix vals @ suffix vals))
      = set (input_variables vals @ map fst (partial_variables vals))
    \<longrightarrow> new_FewShotPromptTemplate (check_valid_template placeholders) vals = Inr vals) \<and>
   (\<not> validate_template vals
    \<longrightarrow> new_FewShotPromptTemplate (check_valid_template placeholders) vals = Inr vals) \<and>
   format formatter_mapping (vals\<lparr>validate_template := flag\<rparr>) kwargs
     = format formatter_mapping vals kwargs"
proof -
  have indep: "format formatter_mapping (vals\<lparr>validate_template := flag\<rparr>) kwargs
     = format formatter_mapping vals kwargs"
    by (simp add: format_def get_examples_def merge_partial_and_user_variables_def template_def
          cong: sum.case_cong option.case_cong)
  from assms indep show ?thesis
    by (auto simp: new_FewShotPromptTemplate_def template_is_valid_def check_valid_template_def)
qed

theorem template_checked_at_construction_witness:
  "new_FewShotPromptTemplate (check_valid_template fstring_placeholders)
      ((sample_prompt [])\<lparr>prefix := ''Answer: {x}'', suffix := ''{y}'', input_variables := [''x'']\<rparr>)
     = Inl (ValueError ''Invalid prompt schema; check for mismatched or missing input parameters.'') \<and>
   new_FewShotPromptTemplate (check_valid_template fstring_placeholders) (sample_prompt [])
     = Inr (sample_prompt [])"
  using template_checked_at_construction
          [where vals = "(sample_prompt [])\<lparr>prefix := ''Answer: {x}'', suffix := ''{y}'',
                              input_variables := [''x'']\<rparr>"
             and p = "(Some [], None)" and v = "''y''" and placeholders = fstring_placeholders]
        template_checked_at_construction
          [where vals = "sample_prompt []"
             and p = "(Some [], None)" and placeholders = fstring_placeholders]
  by (simp add: sample_defs check_examples_and_selector_def new_FewShotPromptTemplate_def
        template_is_valid_def check_valid_template_def)

text \<open>
  Claim C7. The claim has \<^verbatim>\<open>dict\<close> fail for every instance configured with a
  selector and succeed for every instance configured with a static list of
  examples. \<^verbatim>\<open>dict\<close> tests the selector by its truth value, as the validator
  of the mixin does, where \<^verbatim>\<open>_get_examples\<close> tests it against \<^verbatim>\<open>None\<close>. Two
  instances that construction accepts show the difference. The first has a
  selector only, one whose truth value is false: \<^verbatim>\<open>_get_examples\<close> uses the
  selector, and \<^verbatim>\<open>dict\<close> serialises the instance without an error. The second
  has the empty list of examples together with a selector, the instance of
  claim C1: \<^verbatim>\<open>_get_examples\<close> returns the static list, and \<^verbatim>\<open>dict\<close> raises.
\<close>

theorem dict_tests_selector_by_truth_value:
  "check_examples_and_selector None (Some empty_selector) = Inr (None, Some empty_selector) \<and>
   get_examples ((sample_prompt [])\<lparr>examples := None, example_selector := Some empty_selector\<rparr>)
      [''q'' \<mapsto> ''4+4'']
     = delegate (select_examples empty_selector [''q'' \<mapsto> ''4+4'']) \<and>
   dict super_dict ((sample_prompt [])\<lparr>examples := None, example_selector := Some empty_selector\<rparr>)
     = delegate
         (super_dict ((sample_prompt [])\<lparr>examples := None, example_selector := Some empty_selector\<rparr>)) \<and>
   check_examples_and_selector (Some []) (Some echo_selector) = Inr (Some [], Some echo_selector) \<and>
   get_examples ((sample_prompt [])\<lparr>example_selector := Some echo_selector\<rparr>) [''q'' \<mapsto> ''4+4'']
     = Inr [] \<and>
   dict super_dict ((sample_prompt [])\<lparr>example_selector := Some echo_selector\<rparr>)
     = Inl (ValueError ''Saving an example selector is not currently supported'')"
  by (simp add: sample_prompt_def get_examples_def dict_def echo_selector_def empty_selector_def
        check_examples_and_selector_def)

text \<open>
  Claim C9. An example whose rendering is the empty string contributes nothing:
  formatting with the examples \<open>xs @ e # ys\<close>, where \<open>e\<close> renders to the empty
  string, gives the same result (the same string or the same failure) as
  formatting with the examples \<open>xs @ ys\<close>.
\<close>

theorem format_drops_empty_rendered_example:
  assumes "get_examples self (merge_partial_and_user_variables self kwargs) = Inr (xs @ e # ys)"
    and "get_examples self' (merge_partial_and_user_variables self kwargs) = Inr (xs @ ys)"
    and "self' = self\<lparr>examples := exs', example_selector := sel'\<rparr>"
    and "project (pt_input_variables (example_prompt self)) e = (Inr p :: 'x error + 'v pydict)"
    and "pt_format (example_prompt self) p = Inr []"
  shows "format formatter_mapping (self :: ('v, 'x, 'z) FewShotPromptTemplate_scheme) kwargs =
         format formatter_mapping self' kwargs"
proof -
  let ?proj = "project (pt_input_variables (example_prompt self)) :: 'v pydict \<Rightarrow> 'x error + 'v pydict"
  let ?render = "\<lambda>example. delegate (pt_format (example_prompt self) example)"
  have same:
    "merge_partial_and_user_variables self' kwargs = merge_partial_and_user_variables self kwargs"
    "example_prompt self' = example_prompt self" "template_format self' = template_format self"
    "template self' = template self"
    using assms(3) by (simp_all add: merge_partial_and_user_variables_def template_def fun_eq_iff)
  have long: "format formatter_mapping self kwargs =
     (case comprehension ?proj (xs @ e # ys) of
        Inl err \<Rightarrow> Inl err
      | Inr projected \<Rightarrow>
     (case comprehension ?render projected of
        Inl err \<Rightarrow> Inl err
      | Inr example_strings \<Rightarrow>
     (case formatter_mapping (template_format self) of
        None \<Rightarrow> Inl (KeyError (template_format self))
      | Some formatter \<Rightarrow>
          delegate (formatter (template self example_strings)
                      (merge_partial_and_user_variables self kwargs)))))"
    using assms(1) by (simp add: format_def Let_def)
  have short: "format formatter_mapping self' kwargs =
     (case comprehension ?proj (xs @ ys) of
        Inl err \<Rightarrow> Inl err
      | Inr projected \<Rightarrow>
     (case comprehension ?render projected of
        Inl err \<Rightarrow> Inl err
      | Inr example_strings \<Rightarrow>
     (case formatter_mapping (template_format self) of
        None \<Rightarrow> Inl (KeyError (template_format self))
      | Some formatter \<Rightarrow>
          delegate (formatter (template self example_strings)
                      (merge_partial_and_user_variables self kwargs)))))"
    using assms(2) by (simp add: format_def Let_def same cong: sum.case_cong option.case_cong)
  have e: "?proj e = Inr p" "?render p = Inr []"
    using assms(4,5) by simp_all
  show ?thesis
    unfolding long short
    by (simp add: comprehension_append e template_drop_empty split: sum.splits option.splits)
qed

theorem format_drops_empty_rendered_example_witness:
  "format sample_formatter_mapping
      (sample_prompt [[''q'' \<mapsto> ''2+2='', ''a'' \<mapsto> ''4''], [''q'' \<mapsto> [], ''a'' \<mapsto> []],
                      [''q'' \<mapsto> ''2+3='', ''a'' \<mapsto> ''5'']])
      [''q'' \<mapsto> ''4+4'']
   = format sample_formatter_mapping
      (sample_prompt [[''q'' \<mapsto> ''2+2='', ''a'' \<mapsto> ''4''], [''q'' \<mapsto> ''2+3='', ''a'' \<mapsto> ''5'']])
      [''q'' \<mapsto> ''4+4''] \<and>
   format sample_formatter_mapping
      (sample_prompt [[''q'' \<mapsto> ''2+2='', ''a'' \<mapsto> ''4''], [''q'' \<mapsto> [], ''a'' \<mapsto> []],
                      [''q'' \<mapsto> ''2+3='', ''a'' \<mapsto> ''5'']])
      [''q'' \<mapsto> ''4+4'']
   = Inr ''Add:, 2+2=4, 2+3=5, 4+4=''"
  using format_drops_empty_rendered_example
          [where self = "sample_prompt [[''q'' \<mapsto> ''2+2='', ''a'' \<mapsto> ''4''], [''q'' \<mapsto> [], ''a'' \<mapsto> []],
                              [''q'' \<mapsto> ''2+3='', ''a'' \<mapsto> ''5'']]"
             and kwargs = "[''q'' \<mapsto> ''4+4'']"
             and xs = "[[''q'' \<mapsto> ''2+2='', ''a'' \<mapsto> ''4'']]"
             and e = "[''q'' \<mapsto> [], ''a'' \<mapsto> []]"
             and ys = "[[''q'' \<mapsto> ''2+3='', ''a'' \<mapsto> ''5'']]"
             and self' = "sample_prompt [[''q'' \<mapsto> ''2+2='', ''a'' \<mapsto> ''4''], [''q'' \<mapsto> ''2+3='', ''a'' \<mapsto> ''5'']]"
             and exs' = "Some [[''q'' \<mapsto> ''2+2='', ''a'' \<mapsto> ''4''], [''q'' \<mapsto> ''2+3='', ''a'' \<mapsto> ''5'']]"
             and sel' = None
             and p = "[''q'' \<mapsto> [], ''a'' \<mapsto> []]"
             and formatter_mapping = sample_formatter_mapping]
  by (simp add: sample_defs format_def)

text \<open>
  Claim C10. When the examples are acquired and rendered to the strings
  \<open>rs\<close> (in order), \<^verbatim>\<open>format\<close> returns what the formatting engine selected by
  \<^verbatim>\<open>template_format\<close> makes of the intermediate template and the merged
  keyword arguments, and every rendered example is a contiguous part of that
  template: the text of an example is input of the engine, not output that
  bypasses it. In the witness an example renders to a placeholder, and the
  final string holds the value of that placeholder's name.
\<close>

theorem format_passes_rendered_examples_to_engine:
  assumes "get_examples self (merge_partial_and_user_variables self kwargs) = Inr exs"
    and "list_all2
           (\<lambda>e r. \<exists>p. project (pt_input_variables (example_prompt self)) e
                          = (Inr p :: 'x error + 'v pydict) \<and>
                       pt_format (example_prompt self) p = Inr r) exs rs"
    and "formatter_mapping (template_format self) = Some formatter"
  shows "format formatter_mapping (self :: ('v, 'x, 'z) FewShotPromptTemplate_scheme) kwargs =
           delegate (formatter (template self rs) (merge_partial_and_user_variables self kwargs)) \<and>
         (\<forall>r \<in> set rs. \<exists>before after. template self rs = before @ r @ after)"
proof -
  from assms(2) have
    "list_all2
       (\<lambda>e r. \<exists>p. project (pt_input_variables (example_prompt self)) e
                     = (Inr p :: 'x error + 'v pydict) \<and>
                   delegate (pt_format (example_prompt self) p) = Inr r) exs rs"
    by (simp add: delegate_Inr_iff)
  from rendered_in_order [OF this] obtain ps where
    ps: "comprehension (project (pt_input_variables (example_prompt self))) exs
           = (Inr ps :: 'x error + 'v pydict list)"
    and rs: "comprehension (\<lambda>example. delegate (pt_format (example_prompt self) example)) ps = Inr rs"
    by blast
  have result: "format formatter_mapping self kwargs =
      delegate (formatter (template self rs) (merge_partial_and_user_variables self kwargs))"
    using format_rendered [OF assms(1) ps rs, of formatter_mapping] assms(3) by simp
  have part: "\<exists>before after. template self rs = before @ r @ after" if "r \<in> set rs" for r
  proof (cases "r = []")
    case True
    then have "template self rs = template self rs @ r @ []" by simp
    then show ?thesis by blast
  next
    case False
    with that have "r \<in> set (filter (\<lambda>p. p \<noteq> []) (prefix self # rs @ [suffix self]))"
      by simp
    from join_contains [OF this] show ?thesis
      by (simp add: template_eq)
  qed
  from result part show ?thesis by blast
qed

theorem format_passes_rendered_examples_to_engine_witness:
  "format sample_formatter_mapping (sample_prompt [[''q'' \<mapsto> ''{name}'', ''a'' \<mapsto> []]])
      [''q'' \<mapsto> ''4+4'', ''name'' \<mapsto> ''Bob'']
     = Inr ''Add:, Bob, 4+4='' \<and>
   format sample_formatter_mapping (sample_prompt [[''q'' \<mapsto> ''{name}'', ''a'' \<mapsto> []]])
      [''q'' \<mapsto> ''4+4'']
     = Inl (External ''name'')"
  using format_passes_rendered_examples_to_engine
          [of "sample_prompt [[''q'' \<mapsto> ''{name}'', ''a'' \<mapsto> []]]"
              "[''q'' \<mapsto> ''4+4'', ''name'' \<mapsto> ''Bob'']"
              "[[''q'' \<mapsto> ''{name}'', ''a'' \<mapsto> []]]"
              "[''{name}'']" sample_formatter_mapping fstring_formatter]
  by (simp add: sample_defs format_def)

end
